theory Spec2Isabelle
  imports Main "HOL-Library.Sublist"
begin

section \<open>Python values, exceptions and outcomes\<close>

text \<open>
  The program is one Streamlit script, \<^verbatim>\<open>app.py\<close>. It stores a pandas DataFrame and a
  chat transcript in the session state, asks a hosted model for Python code, runs the code
  with \<^verbatim>\<open>exec\<close> and renders a chart, a value or an error.

  Strings are byte strings (UTF-8). A DataFrame is a header and rows of cells;
  \<^verbatim>\<open>df.head()\<close> keeps the first five rows.
\<close>

record dataframe =
  columns :: "string list"
  cells :: "string list list"

definition head :: "dataframe \<Rightarrow> dataframe" where
  "head df = df\<lparr>cells := take 5 (cells df)\<rparr>"

text \<open>
  Exception classes. \<^verbatim>\<open>except Exception\<close> catches the classes derived from
  \<^verbatim>\<open>Exception\<close>; \<^verbatim>\<open>SystemExit\<close>, \<^verbatim>\<open>KeyboardInterrupt\<close> and Streamlit's script
  control exceptions (\<^verbatim>\<open>st.stop()\<close>, \<^verbatim>\<open>st.rerun()\<close>) derive from \<^verbatim>\<open>BaseException\<close>
  only. \<open>OtherException n\<close> is any further class \<open>n\<close> derived from \<^verbatim>\<open>Exception\<close>.
  An exception carries its class and the text of \<^verbatim>\<open>str(e)\<close>.
\<close>

datatype exc_class =
    KeyError | FileNotFoundError | ValueError | OtherException string
  | SystemExit | KeyboardInterrupt | StopException | RerunException

datatype exc = Exc (class_of: exc_class) (str_of: string)

fun is_Exception :: "exc_class \<Rightarrow> bool" where
  "is_Exception SystemExit = False"
| "is_Exception KeyboardInterrupt = False"
| "is_Exception StopException = False"
| "is_Exception RerunException = False"
| "is_Exception _ = True"

text \<open>
  A call returns a value, raises, or does not return (the remote call and the executed
  code have no timeout).
\<close>

datatype 'a outcome = Returns 'a | Raises exc | Hangs

text \<open>
  The values the script handles: \<^verbatim>\<open>None\<close>, booleans, integers, strings, plotly figures
  (by their description), DataFrames and module handles (by module name).
\<close>

datatype pyval =
    PyNone
  | PyBool bool
  | PyInt int
  | PyStr string
  | PyFigure string
  | PyDataFrame dataframe
  | PyModule string

text \<open>
  \<^verbatim>\<open>bool(v)\<close>, as \<^verbatim>\<open>if v:\<close> computes it. \<^verbatim>\<open>None\<close>, zero and the empty string
  are false, a plotly figure and a module are true, and pandas refuses the truth value of
  a DataFrame with a \<^verbatim>\<open>ValueError\<close>.
\<close>

fun truth :: "pyval \<Rightarrow> bool outcome" where
  "truth PyNone = Returns False"
| "truth (PyBool b) = Returns b"
| "truth (PyInt i) = Returns (i \<noteq> 0)"
| "truth (PyStr s) = Returns (s \<noteq> [])"
| "truth (PyFigure f) = Returns True"
| "truth (PyDataFrame d) =
     Raises (Exc ValueError ''The truth value of a DataFrame is ambiguous. Use a.empty, a.bool(), a.item(), a.any() or a.all().'')"
| "truth (PyModule m) = Returns True"

subsection \<open>Decimal numerals\<close>

definition digit :: "nat \<Rightarrow> char" where
  "digit n = ''0123456789'' ! (n mod 10)"

function nat_str :: "nat \<Rightarrow> string" where
  "nat_str n = (if n < 10 then [digit n] else nat_str (n div 10) @ [digit (n mod 10)])"
  by pat_completeness auto
termination
  by (relation "measure id") auto

declare nat_str.simps [simp del]

definition int_str :: "int \<Rightarrow> string" where
  "int_str i = (if i < 0 then CHR ''-'' # nat_str (nat (- i)) else nat_str (nat i))"

section \<open>String operations of the Bridge\<close>

text \<open>
  \<^verbatim>\<open>str.strip()\<close> removes the characters for which \<^verbatim>\<open>str.isspace()\<close> holds from both
  ends. They are listed here in UTF-8: the ASCII ones (tab to carriage return, the four
  separators 0x1C to 0x1F, space), U+0085, U+00A0, U+1680, U+2000 to U+200A, U+2028,
  U+2029, U+202F, U+205F and U+3000.
\<close>

definition whitespace :: "string list" where
  "whitespace =
     [[CHR 0x09], [CHR 0x0A], [CHR 0x0B], [CHR 0x0C], [CHR 0x0D],
      [CHR 0x1C], [CHR 0x1D], [CHR 0x1E], [CHR 0x1F], [CHR 0x20],
      [CHR 0xC2, CHR 0x85], [CHR 0xC2, CHR 0xA0],
      [CHR 0xE1, CHR 0x9A, CHR 0x80],
      [CHR 0xE2, CHR 0x80, CHR 0x80], [CHR 0xE2, CHR 0x80, CHR 0x81],
      [CHR 0xE2, CHR 0x80, CHR 0x82], [CHR 0xE2, CHR 0x80, CHR 0x83],
      [CHR 0xE2, CHR 0x80, CHR 0x84], [CHR 0xE2, CHR 0x80, CHR 0x85],
      [CHR 0xE2, CHR 0x80, CHR 0x86], [CHR 0xE2, CHR 0x80, CHR 0x87],
      [CHR 0xE2, CHR 0x80, CHR 0x88], [CHR 0xE2, CHR 0x80, CHR 0x89],
      [CHR 0xE2, CHR 0x80, CHR 0x8A],
      [CHR 0xE2, CHR 0x80, CHR 0xA8], [CHR 0xE2, CHR 0x80, CHR 0xA9],
      [CHR 0xE2, CHR 0x80, CHR 0xAF],
      [CHR 0xE2, CHR 0x81, CHR 0x9F],
      [CHR 0xE3, CHR 0x80, CHR 0x80]]"

text \<open>The byte length of the whitespace character at the start (end) of a string, 0 if none.\<close>

fun lead_ws :: "string list \<Rightarrow> string \<Rightarrow> nat" where
  "lead_ws [] s = 0"
| "lead_ws (w # ws) s = (if w \<noteq> [] \<and> prefix w s then length w else lead_ws ws s)"

fun trail_ws :: "string list \<Rightarrow> string \<Rightarrow> nat" where
  "trail_ws [] s = 0"
| "trail_ws (w # ws) s = (if w \<noteq> [] \<and> suffix w s then length w else trail_ws ws s)"

function lstrip :: "string \<Rightarrow> string" where
  "lstrip s = (if s = [] \<or> lead_ws whitespace s = 0 then s else lstrip (drop (lead_ws whitespace s) s))"
  by pat_completeness auto
termination
  by (relation "measure length") auto

function rstrip :: "string \<Rightarrow> string" where
  "rstrip s = (if s = [] \<or> trail_ws whitespace s = 0 then s
               else rstrip (take (length s - trail_ws whitespace s) s))"
  by pat_completeness auto
termination
  by (relation "measure length") auto

declare lstrip.simps [simp del] rstrip.simps [simp del]

definition strip :: "string \<Rightarrow> string" where
  "strip s = rstrip (lstrip s)"

text \<open>
  \<^verbatim>\<open>s.replace(old, new)\<close>: every occurrence of \<open>old\<close>, found from left to right without
  overlap, becomes \<open>new\<close>. With an empty \<open>old\<close>, \<open>new\<close> is put before every character
  and at the end.
\<close>

function (sequential) replace :: "string \<Rightarrow> string \<Rightarrow> string \<Rightarrow> string" where
  "replace [] new [] = new"
| "replace [] new (c # cs) = new @ c # replace [] new cs"
| "replace old new [] = []"
| "replace old new (c # cs) =
     (if prefix old (c # cs) then new @ replace old new (drop (length old) (c # cs))
      else c # replace old new cs)"
  by pat_completeness auto
termination
  by (relation "measure (\<lambda>(old, new, s). length s)") auto

declare replace.simps [simp del]

section \<open>The session state and the page\<close>

text \<open>
  The session state holds the transcript and the table. A transcript record is a dict with
  a role and a content, and a \<^verbatim>\<open>"code"\<close> entry in assistant records. What a run puts
  on the page is a list of Streamlit elements, in the order of the calls.
\<close>

datatype role = User | Assistant

datatype message = Message (msg_role: role) (msg_content: string) (msg_code: "pyval option")

record session_state =
  session_messages :: "message list"
  session_df :: "dataframe option"

datatype element =
    StSetPageConfig
  | StTitle string
  | StHeader string
  | StMarkdown string
  | StError string
  | StInfo string
  | StSuccess string
  | StFileUploader string
  | StButton string
  | StChatInput string
  | StDataframe dataframe
  | StChatMessage role
  | StExpander string
  | StCode pyval
  | StSpinner string
  | StPlotlyChart pyval
  | StWrite pyval

text \<open>
  A call that can touch the session: its outcome, the session state it leaves and the
  elements it put on the page. The generated code is such a call: it holds \<^verbatim>\<open>st\<close>, so
  it can write to the page and to \<^verbatim>\<open>st.session_state\<close>, and it holds the session's own
  DataFrame object, which it can change in place. What it did stays done when it raises.
  The two keys of the session state are taken to stay in place, a list of records and a
  table or \<^verbatim>\<open>None\<close>.
\<close>

record 'a effect =
  outcome_of :: "'a outcome"
  session_after :: session_state
  rendered :: "element list"

text \<open>
  \<^verbatim>\<open>try: body  except Exception as e: return handler(e)\<close>: the handler replaces the
  outcome of a body that raised an \<^verbatim>\<open>Exception\<close>; another exception, a hang and the
  effects of the body pass through.
\<close>

definition except_Exception :: "'a effect \<Rightarrow> (exc \<Rightarrow> 'a outcome) \<Rightarrow> 'a effect" where
  "except_Exception body handler =
     (case outcome_of body of
        Raises e \<Rightarrow> if is_Exception (class_of e) then body\<lparr>outcome_of := handler e\<rparr> else body
      | Returns v \<Rightarrow> body
      | Hangs \<Rightarrow> body)"

section \<open>The collaborators outside the script\<close>

text \<open>
  pandas, the hosted model and the Python interpreter are not part of the script; they are
  parameters of the model. \<open>generate_content m p\<close> is the value of
  \<^verbatim>\<open>GEMINI_MODEL.generate_content(p).text\<close> (the call and the attribute access stand in
  the same \<^verbatim>\<open>try\<close>). \<open>exec code globals locals s\<close> is \<^verbatim>\<open>exec(code, globals, locals)\<close>
  run in session state \<open>s\<close>: its outcome is the local scope as the code leaves it, and it
  says what the code did to the session state and the page. A file to read is a path or
  an uploaded file.
\<close>

type_synonym scope = "string \<rightharpoonup> pyval"

record gemini_model =
  api_key :: string
  model_name :: string

record upload =
  file_name :: string
  file_bytes :: string

datatype source = Path string | Uploaded upload

record env =
  to_string :: "dataframe \<Rightarrow> string"
  generate_content :: "gemini_model \<Rightarrow> string \<Rightarrow> string outcome"
  exec :: "string \<Rightarrow> scope \<Rightarrow> scope \<Rightarrow> session_state \<Rightarrow> scope effect"
  read_csv :: "source \<Rightarrow> dataframe outcome"
  read_excel :: "source \<Rightarrow> dataframe outcome"

text \<open>\<^verbatim>\<open>str(v)\<close>, as an f-string formats a value.\<close>

fun py_str :: "env \<Rightarrow> pyval \<Rightarrow> string" where
  "py_str env PyNone = ''None''"
| "py_str env (PyBool b) = (if b then ''True'' else ''False'')"
| "py_str env (PyInt i) = int_str i"
| "py_str env (PyStr s) = s"
| "py_str env (PyFigure f) = ''Figure('' @ f @ '')''"
| "py_str env (PyDataFrame d) = to_string env d"
| "py_str env (PyModule m) = ''<module '' @ [CHR 0x27] @ m @ [CHR 0x27] @ ''>''"

text \<open>\<^verbatim>\<open>d.get(k, default)\<close>\<close>

definition dict_get :: "scope \<Rightarrow> string \<Rightarrow> pyval \<Rightarrow> pyval" where
  "dict_get d k dflt = (case d k of None \<Rightarrow> dflt | Some v \<Rightarrow> v)"

section \<open>The Executor: \<^verbatim>\<open>execute_code\<close>\<close>

text \<open>
  \<^verbatim>\<open>local_vars = {"df": df, "pd": pd, "px": px, "st": st}\<close>
\<close>

definition local_vars :: "dataframe \<Rightarrow> scope" where
  "local_vars df =
     [''df'' \<mapsto> PyDataFrame df,
      ''pd'' \<mapsto> PyModule ''pandas'',
      ''px'' \<mapsto> PyModule ''plotly.express'',
      ''st'' \<mapsto> PyModule ''streamlit'']"

text \<open>
  The function returns a Python tuple, modelled as the list of its components: three on
  both paths. It runs in the session state \<open>s\<close> of the moment.
\<close>

definition execute_code :: "env \<Rightarrow> string \<Rightarrow> dataframe \<Rightarrow> session_state \<Rightarrow> pyval list effect" where
  "execute_code env code df s =
     except_Exception
       (let ran = exec env code Map.empty (local_vars df) s
        in case outcome_of ran of
             Returns lv \<Rightarrow>
               (let fig = dict_get lv ''fig'' PyNone;
                    result = dict_get lv ''result'' PyNone
                in \<lparr>outcome_of = Returns [fig, result, PyStr code],
                    session_after = session_after ran, rendered = rendered ran\<rparr>)
           | Raises e \<Rightarrow>
               \<lparr>outcome_of = Raises e, session_after = session_after ran, rendered = rendered ran\<rparr>
           | Hangs \<Rightarrow>
               \<lparr>outcome_of = Hangs, session_after = session_after ran, rendered = rendered ran\<rparr>)
       (\<lambda>e. Returns [PyNone, PyStr (''Error executing code: '' @ str_of e), PyStr code])"

section \<open>The Bridge: \<^verbatim>\<open>get_ai_response\<close>\<close>

text \<open>The f-string of the prompt, line by line.\<close>

definition prompt_text :: "string \<Rightarrow> string \<Rightarrow> string" where
  "prompt_text df_head user_query =
     ''\<newline>''
     @ ''    You are an expert data analyst AI. You are given a pandas DataFrame named `df`.\<newline>''
     @ ''    The user wants to perform an analysis on this data.\<newline>''
     @ ''\<newline>''
     @ ''    Here is the head of the DataFrame to give you context:\<newline>''
     @ ''    ```\<newline>''
     @ ''    '' @ df_head @ ''\<newline>''
     @ ''    ```\<newline>''
     @ ''\<newline>''
     @ ''    The user'' @ [CHR 0x27] @ ''s request is: '' @ [CHR 0x22] @ user_query @ [CHR 0x22] @ ''\<newline>''
     @ ''\<newline>''
     @ ''    Your task is to generate a single block of Python code to perform the requested analysis.\<newline>''
     @ ''    - You **MUST** use the pandas DataFrame `df`.\<newline>''
     @ ''    - For visualizations, you **MUST** use the `plotly.express` library and assign the figure to a variable named `fig`.\<newline>''
     @ ''    - For data analysis or calculations, the final result should be assigned to a variable named `result`.\<newline>''
     @ ''    - The code should be a single, runnable block.\<newline>''
     @ ''    - **DO NOT** include any explanations, comments, or markdown formatting around the code. Only output the raw Python code.\<newline>''
     @ ''\<newline>''
     @ ''    Example for a plot:\<newline>''
     @ ''    ```python\<newline>''
     @ ''    fig = px.bar(df, x='' @ [CHR 0x27] @ ''Region'' @ [CHR 0x27] @ '', y='' @ [CHR 0x27] @ ''Sales'' @ [CHR 0x27]
     @ '', title='' @ [CHR 0x27] @ ''Total Sales by Region'' @ [CHR 0x27] @ '')\<newline>''
     @ ''    ```\<newline>''
     @ ''\<newline>''
     @ ''    Example for a calculation:\<newline>''
     @ ''    ```python\<newline>''
     @ ''    result = df['' @ [CHR 0x27] @ ''Sales'' @ [CHR 0x27] @ ''].sum()\<newline>''
     @ ''    ```\<newline>''
     @ ''    \<newline>''
     @ ''    Now, generate the Python code for the user'' @ [CHR 0x27] @ ''s request.\<newline>''
     @ ''    ''"

text \<open>
  \<^verbatim>\<open>response.text.strip().replace('```python', '').replace('```', '')\<close>
\<close>

definition code_to_execute :: "string \<Rightarrow> string" where
  "code_to_execute text = replace ''```'' [] (replace ''```python'' [] (strip text))"

text \<open>
  The \<^verbatim>\<open>try\<close> covers the remote call, the cleanup and the call of the Executor; the
  preview of the table is built before it. The handler returns two components.
\<close>

definition get_ai_response ::
  "env \<Rightarrow> gemini_model \<Rightarrow> dataframe \<Rightarrow> string \<Rightarrow> session_state \<Rightarrow> pyval list effect" where
  "get_ai_response env GEMINI_MODEL df user_query s =
     (let df_head = to_string env (head df);
          prompt = prompt_text df_head user_query
      in except_Exception
           (case generate_content env GEMINI_MODEL prompt of
              Returns text \<Rightarrow> execute_code env (code_to_execute text) df s
            | Raises e \<Rightarrow> \<lparr>outcome_of = Raises e, session_after = s, rendered = []\<rparr>
            | Hangs \<Rightarrow> \<lparr>outcome_of = Hangs, session_after = s, rendered = []\<rparr>)
           (\<lambda>e. Returns [PyNone, PyStr (''An error occurred with the AI model: '' @ str_of e)]))"

section \<open>The script: runs and handlers\<close>

text \<open>
  A run of a part of the script: how it ended, the session state it left and what it put
  on the page. An exception that leaves the script ends the run; the session state keeps
  what was assigned before.
\<close>

record 's run =
  status :: "unit outcome"
  session :: 's
  page :: "element list"

definition render :: "element list \<Rightarrow> session_state \<Rightarrow> session_state run" where
  "render es s = \<lparr>status = Returns (), session = s, page = es\<rparr>"

definition and_then ::
  "session_state run \<Rightarrow> (session_state \<Rightarrow> session_state run) \<Rightarrow> session_state run" where
  "and_then r f =
     (case status r of
        Returns u \<Rightarrow> (let r' = f (session r) in r'\<lparr>page := page r @ page r'\<rparr>)
      | Raises e \<Rightarrow> r
      | Hangs \<Rightarrow> r)"

subsection \<open>API configuration\<close>

text \<open>
  \<^verbatim>\<open>st.secrets["google_api_key"]\<close>: without a secrets file the lookup raises
  \<^verbatim>\<open>FileNotFoundError\<close>, without the key \<^verbatim>\<open>KeyError\<close>. \<^verbatim>\<open>st.stop()\<close> ends the
  run by raising Streamlit's \<^verbatim>\<open>StopException\<close>.
\<close>

type_synonym secrets = "(string \<rightharpoonup> string) option"

definition secrets_getitem :: "secrets \<Rightarrow> string \<Rightarrow> string outcome" where
  "secrets_getitem secrets k =
     (case secrets of
        None \<Rightarrow> Raises (Exc FileNotFoundError ''No secrets files found.'')
      | Some m \<Rightarrow>
          (case m k of
             None \<Rightarrow> Raises (Exc KeyError ([CHR 0x27] @ k @ [CHR 0x27]))
           | Some v \<Rightarrow> Returns v))"

definition st_stop :: exc where
  "st_stop = Exc StopException []"

definition api_configuration :: "secrets \<Rightarrow> gemini_model outcome \<times> element list" where
  "api_configuration secrets =
     (case secrets_getitem secrets ''google_api_key'' of
        Returns k \<Rightarrow> (Returns \<lparr>api_key = k, model_name = ''gemini-2.0-flash''\<rparr>, [])
      | Raises e \<Rightarrow>
          if class_of e = KeyError \<or> class_of e = FileNotFoundError
          then (Raises st_stop,
                [StError ([CHR 0xE2, CHR 0x9A, CHR 0xA0, CHR 0xEF, CHR 0xB8, CHR 0x8F]
                          @ '' **Warning:** Google API key not found.''),
                 StInfo ''Please add your Google API key to your Streamlit secrets. Name it `google_api_key`.''])
          else (Raises e, [])
      | Hangs \<Rightarrow> (Hangs, []))"

subsection \<open>Sidebar: data upload and sample data\<close>

definition endswith :: "string \<Rightarrow> string \<Rightarrow> bool" where
  "endswith s suf = suffix suf s"

text \<open>The two readers of the upload branch, chosen by the file's name.\<close>

definition read_uploaded :: "env \<Rightarrow> upload \<Rightarrow> dataframe outcome" where
  "read_uploaded env f =
     (if endswith (file_name f) ''.csv'' then read_csv env (Uploaded f)
      else read_excel env (Uploaded f))"

definition upload_handler :: "env \<Rightarrow> upload option \<Rightarrow> session_state \<Rightarrow> session_state run" where
  "upload_handler env uploaded_file s =
     (case uploaded_file of
        None \<Rightarrow> render [] s
      | Some f \<Rightarrow>
          (case read_uploaded env f of
             Returns t \<Rightarrow>
               \<lparr>status = Returns (),
                session = s\<lparr>session_df := Some t, session_messages := []\<rparr>,
                page = [StSuccess ''File uploaded successfully!'']\<rparr>
           | Raises e \<Rightarrow>
               if is_Exception (class_of e)
               then \<lparr>status = Returns (),
                     session = s\<lparr>session_df := None\<rparr>,
                     page = [StError (''Error reading file: '' @ str_of e)]\<rparr>
               else \<lparr>status = Raises e, session = s, page = []\<rparr>
           | Hangs \<Rightarrow> \<lparr>status = Hangs, session = s, page = []\<rparr>))"

definition sample_handler :: "env \<Rightarrow> bool \<Rightarrow> session_state \<Rightarrow> session_state run" where
  "sample_handler env clicked s =
     (if clicked
      then (case read_csv env (Path ''sample_data.csv'') of
              Returns t \<Rightarrow>
                \<lparr>status = Returns (),
                 session = s\<lparr>session_df := Some t, session_messages := []\<rparr>,
                 page = [StSuccess ''Sample data loaded!'']\<rparr>
            | Raises e \<Rightarrow> \<lparr>status = Raises e, session = s, page = []\<rparr>
            | Hangs \<Rightarrow> \<lparr>status = Hangs, session = s, page = []\<rparr>)
      else render [] s)"

text \<open>What the user did before this run: the widgets' values.\<close>

record widgets =
  uploaded_file :: "upload option"
  load_sample_clicked :: bool
  chat_input :: "string option"

definition sidebar :: "env \<Rightarrow> widgets \<Rightarrow> session_state \<Rightarrow> session_state run" where
  "sidebar env w s =
     and_then
       (and_then
          (and_then
             (render [StHeader ''1. Upload Your Data'',
                      StFileUploader ''Choose a CSV or Excel file''] s)
             (upload_handler env (uploaded_file w)))
          (render [StButton ''Load Sample Data'']))
       (sample_handler env (load_sample_clicked w))"

subsection \<open>Main chat interface\<close>

text \<open>The loop over the previous messages.\<close>

fun display_messages :: "message list \<Rightarrow> element list" where
  "display_messages [] = []"
| "display_messages (m # ms) =
     [StChatMessage (msg_role m), StMarkdown (msg_content m)]
     @ (case msg_code m of
          None \<Rightarrow> []
        | Some c \<Rightarrow> [StExpander ''View Generated Code'', StCode c])
     @ display_messages ms"

text \<open>\<^verbatim>\<open>fig, result, code = ...\<close>: unpacking a tuple into three names.\<close>

definition unpack3 :: "pyval list \<Rightarrow> (pyval \<times> pyval \<times> pyval) outcome" where
  "unpack3 t =
     (case t of
        [a, b, c] \<Rightarrow> Returns (a, b, c)
      | _ \<Rightarrow>
          if length t < 3
          then Raises (Exc ValueError
                 (''not enough values to unpack (expected 3, got '' @ nat_str (length t) @ '')''))
          else Raises (Exc ValueError ''too many values to unpack (expected 3)''))"

text \<open>
  \<^verbatim>\<open>st.plotly_chart(fig)\<close> draws a figure; for a value that is neither a figure nor
  dict-like nor list-like, plotly raises \<^verbatim>\<open>PlotlyError\<close>.
\<close>

definition plotly_chart :: "pyval \<Rightarrow> unit outcome" where
  "plotly_chart fig =
     (case fig of
        PyFigure f \<Rightarrow> Returns ()
      | _ \<Rightarrow> Raises (Exc (OtherException ''PlotlyError'')
               ''The `figure_or_data` positional argument must be `dict`-like, `list`-like, or an instance of plotly.graph_objs.Figure''))"

text \<open>
  The \<^verbatim>\<open>if fig: ... elif result is not None: ... else: ...\<close> of the chat handler: what
  it renders and the \<^verbatim>\<open>ai_response_content\<close> it chooses.
\<close>

definition render_response :: "env \<Rightarrow> pyval \<Rightarrow> pyval \<Rightarrow> (element list \<times> string) outcome" where
  "render_response env fig result =
     (case truth fig of
        Returns is_true \<Rightarrow>
          if is_true
          then (case plotly_chart fig of
                  Returns u \<Rightarrow>
                    Returns ([StPlotlyChart fig], ''Here is the visualization you requested.'')
                | Raises e \<Rightarrow> Raises e
                | Hangs \<Rightarrow> Hangs)
          else if result \<noteq> PyNone
          then Returns ([StWrite (PyStr ''Here is the result of your analysis:''), StWrite result],
                        ''I'' @ [CHR 0x27] @ ''ve completed the calculation for you.'')
          else Returns ([StError (''Sorry, I ran into an issue. \<newline>\<newline>'' @ py_str env result)],
                        ''I couldn'' @ [CHR 0x27]
                        @ ''t complete that request. Please try rephrasing or asking something else.'')
      | Raises e \<Rightarrow> Raises e
      | Hangs \<Rightarrow> Hangs)"

text \<open>
  One question: the body of \<^verbatim>\<open>if prompt := st.chat_input(...)\<close>. The user's record is
  appended first; the Bridge runs in that state, the handler renders after what the
  generated code rendered, and the assistant's record is appended to the transcript as the
  generated code left it.
\<close>

definition asked :: "session_state \<Rightarrow> string \<Rightarrow> session_state" where
  "asked s prompt = s\<lparr>session_messages := session_messages s @ [Message User prompt None]\<rparr>"

definition turn_header :: "string \<Rightarrow> element list" where
  "turn_header prompt =
     [StChatMessage User, StMarkdown prompt,
      StChatMessage Assistant, StSpinner ''DataPilot is thinking...'']"

definition chat_turn ::
  "env \<Rightarrow> gemini_model \<Rightarrow> dataframe \<Rightarrow> string \<Rightarrow> session_state \<Rightarrow> session_state run" where
  "chat_turn env GEMINI_MODEL df prompt s =
     (let answer = get_ai_response env GEMINI_MODEL df prompt (asked s prompt);
          s2 = session_after answer;
          shown = turn_header prompt @ rendered answer
      in case outcome_of answer of
           Returns t \<Rightarrow>
             (case unpack3 t of
                Returns (fig, result, code) \<Rightarrow>
                  (case render_response env fig result of
                     Returns (out, ai_response_content) \<Rightarrow>
                       \<lparr>status = Returns (),
                        session = s2\<lparr>session_messages :=
                          session_messages s2 @ [Message Assistant ai_response_content (Some code)]\<rparr>,
                        page = shown @ out\<rparr>
                   | Raises e \<Rightarrow> \<lparr>status = Raises e, session = s2, page = shown\<rparr>
                   | Hangs \<Rightarrow> \<lparr>status = Hangs, session = s2, page = shown\<rparr>)
              | Raises e \<Rightarrow> \<lparr>status = Raises e, session = s2, page = shown\<rparr>
              | Hangs \<Rightarrow> \<lparr>status = Hangs, session = s2, page = shown\<rparr>)
         | Raises e \<Rightarrow> \<lparr>status = Raises e, session = s2, page = shown\<rparr>
         | Hangs \<Rightarrow> \<lparr>status = Hangs, session = s2, page = shown\<rparr>)"

definition main_area ::
  "env \<Rightarrow> gemini_model \<Rightarrow> widgets \<Rightarrow> session_state \<Rightarrow> session_state run" where
  "main_area env GEMINI_MODEL w s =
     (case session_df s of
        Some df \<Rightarrow>
          and_then
            (render ([StHeader ''2. Data Preview'', StDataframe (head df),
                      StHeader ''Chat with Your Data'']
                     @ display_messages (session_messages s)
                     @ [StChatInput (''What would you like to analyze? (e.g., '' @ [CHR 0x27]
                          @ ''Plot total sales by region'' @ [CHR 0x27] @ '')'')]) s)
            (\<lambda>s'. case chat_input w of
                    None \<Rightarrow> render [] s'
                  | Some prompt \<Rightarrow>
                      if prompt \<noteq> [] then chat_turn env GEMINI_MODEL df prompt s'
                      else render [] s')
      | None \<Rightarrow>
          render [StInfo ''Please upload a CSV or Excel file, or load the sample data to get started.''] s)"

subsection \<open>The whole script\<close>

text \<open>
  A new session has no session state yet (\<open>None\<close>); the script initialises it after the
  API configuration.
\<close>

definition initial_state :: "session_state option \<Rightarrow> session_state" where
  "initial_state st = (case st of
        None \<Rightarrow> \<lparr>session_messages = [], session_df = None\<rparr>
      | Some s \<Rightarrow> s)"

definition script ::
  "env \<Rightarrow> secrets \<Rightarrow> widgets \<Rightarrow> session_state option \<Rightarrow> session_state option run" where
  "script env secrets w st =
     (case api_configuration secrets of
        (Returns GEMINI_MODEL, es) \<Rightarrow>
          (let r = and_then
                     (and_then
                        (render [StTitle (''DataPilot AI '' @ [CHR 0xF0, CHR 0x9F, CHR 0x9A, CHR 0x80]),
                                 StMarkdown ''Your AI-powered assistant for data analysis and visualization. Upload your data and start asking questions!'']
                           (initial_state st))
                        (sidebar env w))
                     (main_area env GEMINI_MODEL w)
           in \<lparr>status = status r, session = Some (session r),
               page = StSetPageConfig # es @ page r\<rparr>)
      | (Raises e, es) \<Rightarrow> \<lparr>status = Raises e, session = st, page = StSetPageConfig # es\<rparr>
      | (Hangs, es) \<Rightarrow> \<lparr>status = Hangs, session = st, page = StSetPageConfig # es\<rparr>)"

section \<open>Test doubles\<close>

text \<open>
  Concrete collaborators, to run the model on examples: a two-row table, an interpreter
  that knows a handful of programs, blank lines around them ignored (and reports a syntax
  error for any other text), a reader that accepts one CSV text and finds no sample file,
  and a hosted model with a canned answer. One of the programs uses \<^verbatim>\<open>st\<close>: it clears
  the transcript and writes to the page.
\<close>

definition demo_df :: dataframe where
  "demo_df = \<lparr>columns = [''Region'', ''Sales''], cells = [[''East'', ''10''], [''West'', ''20'']]\<rparr>"

definition plot_program :: string where
  "plot_program =
     ''fig = px.bar(df, x='' @ [CHR 0x27] @ ''Region'' @ [CHR 0x27]
     @ '', y='' @ [CHR 0x27] @ ''Sales'' @ [CHR 0x27] @ '')''"

definition meddling_program :: string where
  "meddling_program = ''st.session_state.messages.clear()\<newline>st.write(len(df))''"



definition demo_exec :: "string \<Rightarrow> scope \<Rightarrow> scope \<Rightarrow> session_state \<Rightarrow> scope effect" where
  "demo_exec code globals locals s =
     (let is_nl = (\<lambda>c. c = CHR 0x0A);
          prog = rev (dropWhile is_nl (rev (dropWhile is_nl code)));
          ends = (\<lambda>r. \<lparr>outcome_of = r, session_after = s, rendered = []\<rparr>)
      in if prog = plot_program then
        ends (Returns (locals(''fig'' \<mapsto> PyFigure ''bar of Sales by Region'')))
      else if prog = ''result = len(df)'' then
        (case locals ''df'' of
           Some (PyDataFrame d) \<Rightarrow>
             ends (Returns (locals(''result'' \<mapsto> PyInt (int (length (cells d))))))
         | _ \<Rightarrow> ends (Raises (Exc (OtherException ''NameError'')
                  (''name '' @ [CHR 0x27] @ ''df'' @ [CHR 0x27] @ '' is not defined''))))
      else if prog = ''x = 1'' then ends (Returns (locals(''x'' \<mapsto> PyInt 1)))
      else if prog = ''fig = 0\<newline>result = 5'' then
        ends (Returns (locals(''fig'' \<mapsto> PyInt 0, ''result'' \<mapsto> PyInt 5)))
      else if prog = ''fig = 1'' then ends (Returns (locals(''fig'' \<mapsto> PyInt 1)))
      else if prog = meddling_program then
        (case locals ''df'' of
           Some (PyDataFrame d) \<Rightarrow>
             \<lparr>outcome_of = Returns locals,
              session_after = s\<lparr>session_messages := []\<rparr>,
              rendered = [StWrite (PyInt (int (length (cells d))))]\<rparr>
         | _ \<Rightarrow> ends (Raises (Exc (OtherException ''NameError'')
                  (''name '' @ [CHR 0x27] @ ''df'' @ [CHR 0x27] @ '' is not defined''))))
      else if prog = ''1/0'' then
        ends (Raises (Exc (OtherException ''ZeroDivisionError'') ''division by zero''))
      else if prog = ''raise SystemExit'' then ends (Raises (Exc SystemExit []))
      else if prog = ''while True: pass'' then ends Hangs
      else ends (Raises (Exc (OtherException ''SyntaxError'') ''invalid syntax'')))"

definition demo_read :: "source \<Rightarrow> dataframe outcome" where
  "demo_read src =
     (case src of
        Uploaded f \<Rightarrow>
          if file_bytes f = ''Region,Sales\<newline>East,10\<newline>West,20\<newline>'' then Returns demo_df
          else Raises (Exc (OtherException ''ParserError'') ''Error tokenizing data'')
      | Path p \<Rightarrow>
          Raises (Exc FileNotFoundError
            (''[Errno 2] No such file or directory: '' @ [CHR 0x27] @ p @ [CHR 0x27])))"

definition demo_env :: "string outcome \<Rightarrow> env" where
  "demo_env reply =
     \<lparr>to_string = (\<lambda>d. concat (columns d) @ concat (map concat (cells d))),
      generate_content = (\<lambda>m p. reply),
      exec = demo_exec,
      read_csv = demo_read,
      read_excel = demo_read\<rparr>"

definition demo_model :: gemini_model where
  "demo_model = \<lparr>api_key = ''k'', model_name = ''gemini-2.0-flash''\<rparr>"

definition good_file :: upload where
  "good_file = \<lparr>file_name = ''sales.csv'',
                 file_bytes = ''Region,Sales\<newline>East,10\<newline>West,20\<newline>''\<rparr>"

definition bad_file :: upload where
  "bad_file = \<lparr>file_name = ''sales.xlsx'', file_bytes = ''not a workbook''\<rparr>"

definition chatted :: session_state where
  "chatted =
     \<lparr>session_messages =
        [Message User ''how many rows?'' None,
         Message Assistant (''I'' @ [CHR 0x27] @ ''ve completed the calculation for you.'')
           (Some (PyStr ''result = len(df)''))],
      session_df = Some demo_df\<rparr>"

section \<open>The Executor and the Bridge, case by case\<close>

lemma execute_code_Returns:
  "outcome_of (exec env code Map.empty (local_vars df) s) = Returns lv \<Longrightarrow>
   execute_code env code df s =
     \<lparr>outcome_of = Returns [dict_get lv ''fig'' PyNone, dict_get lv ''result'' PyNone, PyStr code],
      session_after = session_after (exec env code Map.empty (local_vars df) s),
      rendered = rendered (exec env code Map.empty (local_vars df) s)\<rparr>"
  by (simp add: execute_code_def except_Exception_def Let_def)





text \<open>
  What leaves the Executor as an exception is not an \<^verbatim>\<open>Exception\<close>, and what it returns
  has three components, the last one the code.
\<close>

lemma execute_code_Raises_class:
  "outcome_of (execute_code env code df s) = Raises e \<Longrightarrow> \<not> is_Exception (class_of e)"
  by (cases "outcome_of (exec env code Map.empty (local_vars df) s)")
    (auto simp: execute_code_def except_Exception_def Let_def split: if_splits)


text \<open>
  So the \<^verbatim>\<open>try\<close> of the Bridge never handles anything the Executor raised: when the
  model answers, the Bridge returns what the Executor returns.
\<close>

lemma get_ai_response_text:
  assumes "generate_content env m (prompt_text (to_string env (head df)) q) = Returns text"
  shows "get_ai_response env m df q s = execute_code env (code_to_execute text) df s"
proof (cases "outcome_of (execute_code env (code_to_execute text) df s)")
  case (Raises e)
  with execute_code_Raises_class [OF Raises] assms show ?thesis
    by (simp add: get_ai_response_def except_Exception_def)
qed (use assms in \<open>simp_all add: get_ai_response_def except_Exception_def\<close>)

lemma get_ai_response_failure:
  "generate_content env m (prompt_text (to_string env (head df)) q) = Raises e \<Longrightarrow>
   is_Exception (class_of e) \<Longrightarrow>
   get_ai_response env m df q s =
     \<lparr>outcome_of = Returns [PyNone, PyStr (''An error occurred with the AI model: '' @ str_of e)],
      session_after = s, rendered = []\<rparr>"
  by (simp add: get_ai_response_def except_Exception_def)

section \<open>The chat handler, case by case\<close>

lemma unpack3_pair:
  "unpack3 [a, b] = Raises (Exc ValueError ''not enough values to unpack (expected 3, got 2)'')"
  by (simp add: unpack3_def nat_str.simps digit_def)


lemma chat_turn_unpack_failure:
  "outcome_of (get_ai_response env m df q (asked s q)) = Returns [a, b] \<Longrightarrow>
   chat_turn env m df q s =
     \<lparr>status = Raises (Exc ValueError ''not enough values to unpack (expected 3, got 2)''),
      session = session_after (get_ai_response env m df q (asked s q)),
      page = turn_header q @ rendered (get_ai_response env m df q (asked s q))\<rparr>"
  by (simp add: chat_turn_def unpack3_pair Let_def)




lemma render_response_failure:
  "truth fig = Returns False \<Longrightarrow>
   render_response env fig PyNone =
     Returns ([StError ''Sorry, I ran into an issue. \<newline>\<newline>None''],
              ''I couldn'' @ [CHR 0x27]
              @ ''t complete that request. Please try rephrasing or asking something else.'')"
  by (simp add: render_response_def)






section \<open>The sidebar, case by case\<close>

lemma upload_ok:
  "read_uploaded env f = Returns t \<Longrightarrow>
   upload_handler env (Some f) s =
     \<lparr>status = Returns (),
      session = s\<lparr>session_df := Some t, session_messages := []\<rparr>,
      page = [StSuccess ''File uploaded successfully!'']\<rparr>"
  by (simp add: upload_handler_def)

lemma upload_failed:
  "read_uploaded env f = Raises e \<Longrightarrow> is_Exception (class_of e) \<Longrightarrow>
   upload_handler env (Some f) s =
     \<lparr>status = Returns (),
      session = s\<lparr>session_df := None\<rparr>,
      page = [StError (''Error reading file: '' @ str_of e)]\<rparr>"
  by (simp add: upload_handler_def)

lemma no_upload: "upload_handler env None s = render [] s"
  by (simp add: upload_handler_def)

lemma sample_ok:
  "read_csv env (Path ''sample_data.csv'') = Returns t \<Longrightarrow>
   sample_handler env True s =
     \<lparr>status = Returns (),
      session = s\<lparr>session_df := Some t, session_messages := []\<rparr>,
      page = [StSuccess ''Sample data loaded!'']\<rparr>"
  by (simp add: sample_handler_def)

lemma sample_failed:
  "read_csv env (Path ''sample_data.csv'') = Raises e \<Longrightarrow>
   sample_handler env True s = \<lparr>status = Raises e, session = s, page = []\<rparr>"
  by (simp add: sample_handler_def)

lemma sample_not_clicked: "sample_handler env False s = render [] s"
  by (simp add: sample_handler_def)

lemma sidebar_steps:
  "status (upload_handler env (uploaded_file w) s) = Returns () \<Longrightarrow>
   session (sidebar env w s) =
     session (sample_handler env (load_sample_clicked w)
       (session (upload_handler env (uploaded_file w) s)))
   \<and> status (sidebar env w s) =
     status (sample_handler env (load_sample_clicked w)
       (session (upload_handler env (uploaded_file w) s)))"
  by (simp add: sidebar_def and_then_def render_def Let_def split: outcome.splits)

section \<open>Removing the fences\<close>

text \<open>
  \<^verbatim>\<open>replace\<close> on a non-empty pattern, step by step; then: removing the fences never
  brings two backquotes to the front where there were none, and no fence is left.
\<close>

lemma replace_hit:
  "old \<noteq> [] \<Longrightarrow> prefix old s \<Longrightarrow>
   replace old new s = new @ replace old new (drop (length old) s)"
  by (cases old; cases s) (simp_all add: replace.simps)

lemma replace_miss:
  "old \<noteq> [] \<Longrightarrow> \<not> prefix old (c # cs) \<Longrightarrow>
   replace old new (c # cs) = c # replace old new cs"
  by (cases old) (auto simp: replace.simps)

lemma replace_Nil: "old \<noteq> [] \<Longrightarrow> replace old new [] = []"
  by (cases old) (simp_all add: replace.simps)

lemma replace_fence_two:
  assumes "\<not> prefix ''``'' cs"
  shows "\<not> prefix ''``'' (replace ''```'' [] cs)"
proof (cases cs)
  case Nil
  then show ?thesis by (simp add: replace_Nil)
next
  case (Cons x xs)
  have "prefix ''``'' ''```''"
    by simp
  with assms Cons have "\<not> prefix ''```'' (x # xs)"
    using prefix_order.trans by blast
  then have outer: "replace ''```'' [] (x # xs) = x # replace ''```'' [] xs"
    by (simp add: replace_miss)
  show ?thesis
  proof (cases "x = CHR 0x60")
    case False
    with outer Cons show ?thesis by simp
  next
    case True
    show ?thesis
    proof (cases xs)
      case Nil
      with outer Cons show ?thesis by (simp add: replace_Nil)
    next
      case (Cons y ys)
      with True assms \<open>cs = x # xs\<close> have y: "y \<noteq> CHR 0x60"
        by auto
      then have "\<not> prefix ''```'' (y # ys)"
        by simp
      then have "replace ''```'' [] (y # ys) = y # replace ''```'' [] ys"
        by (simp add: replace_miss)
      with outer Cons \<open>cs = x # xs\<close> y show ?thesis by simp
    qed
  qed
qed

lemma replace_fence_no_fence: "\<not> sublist ''```'' (replace ''```'' [] s)"
proof (induction s rule: length_induct)
  case (1 s)
  show ?case
  proof (cases s)
    case Nil
    then show ?thesis by (simp add: replace_Nil)
  next
    case (Cons c cs)
    show ?thesis
    proof (cases "prefix ''```'' s")
      case True
      have "length (drop (length ''```'') s) < length s"
        using Cons by simp
      with 1 have "\<not> sublist ''```'' (replace ''```'' [] (drop (length ''```'') s))"
        by blast
      moreover have "replace ''```'' [] s = [] @ replace ''```'' [] (drop (length ''```'') s)"
        using True by (intro replace_hit) simp_all
      ultimately show ?thesis
        by simp
    next
      case False
      with Cons have step: "replace ''```'' [] s = c # replace ''```'' [] cs"
        by (simp add: replace_miss)
      from 1 Cons have tail: "\<not> sublist ''```'' (replace ''```'' [] cs)"
        by simp
      have "\<not> prefix ''```'' (c # replace ''```'' [] cs)"
      proof (cases "c = CHR 0x60")
        case True
        with False Cons have "\<not> prefix ''``'' cs"
          by simp
        then have "\<not> prefix ''``'' (replace ''```'' [] cs)"
          by (rule replace_fence_two)
        with True show ?thesis by simp
      next
        case False
        then show ?thesis by simp
      qed
      with tail step show ?thesis
        by (simp add: sublist_Cons_right)
    qed
  qed
qed

section \<open>The test doubles at work\<close>


lemma demo_len_exec:
  "exec (demo_env r) ''result = len(df)'' Map.empty (local_vars demo_df) s =
     \<lparr>outcome_of = Returns ((local_vars demo_df)(''result'' \<mapsto> PyInt 2)),
      session_after = s, rendered = []\<rparr>"
  by (simp add: Let_def demo_env_def demo_exec_def local_vars_def demo_df_def
      plot_program_def meddling_program_def)


lemma demo_no_slot:
  "exec (demo_env r) ''x = 1'' Map.empty (local_vars demo_df) s =
     \<lparr>outcome_of = Returns ((local_vars demo_df)(''x'' \<mapsto> PyInt 1)),
      session_after = s, rendered = []\<rparr>"
  by (simp add: Let_def demo_env_def demo_exec_def plot_program_def meddling_program_def)








text \<open>The cleanup on the canned answers.\<close>

lemma demo_fenced_reply:
  "code_to_execute ''```python\<newline>result = len(df)\<newline>```'' = ''\<newline>result = len(df)\<newline>''"
  by code_simp




text \<open>The slots the programs leave.\<close>

lemma demo_slots:
  "dict_get ((local_vars demo_df)(''result'' \<mapsto> PyInt 2)) ''fig'' PyNone = PyNone"
  "dict_get ((local_vars demo_df)(''result'' \<mapsto> PyInt 2)) ''result'' PyNone = PyInt 2"
  "dict_get ((local_vars demo_df)(''fig'' \<mapsto> PyInt 0, ''result'' \<mapsto> PyInt 5)) ''fig'' PyNone = PyInt 0"
  "dict_get ((local_vars demo_df)(''fig'' \<mapsto> PyInt 0, ''result'' \<mapsto> PyInt 5)) ''result'' PyNone = PyInt 5"
  "dict_get ((local_vars demo_df)(''fig'' \<mapsto> PyInt 1)) ''fig'' PyNone = PyInt 1"
  "dict_get ((local_vars demo_df)(''fig'' \<mapsto> PyInt 1)) ''result'' PyNone = PyNone"
  "dict_get ((local_vars demo_df)(''fig'' \<mapsto> PyFigure ''bar of Sales by Region'')) ''fig'' PyNone =
     PyFigure ''bar of Sales by Region''"
  "dict_get ((local_vars demo_df)(''fig'' \<mapsto> PyFigure ''bar of Sales by Region'')) ''result'' PyNone =
     PyNone"
  "dict_get (local_vars demo_df) ''fig'' PyNone = PyNone"
  "dict_get (local_vars demo_df) ''result'' PyNone = PyNone"
  by (simp_all add: dict_get_def local_vars_def)

lemma demo_len:
  "execute_code (demo_env r) ''result = len(df)'' demo_df s =
     \<lparr>outcome_of = Returns [PyNone, PyInt 2, PyStr ''result = len(df)''],
      session_after = s, rendered = []\<rparr>"
  using execute_code_Returns [of "demo_env r" "''result = len(df)''" demo_df s]
  by (simp add: demo_len_exec demo_slots)





lemma demo_read_good: "read_uploaded (demo_env r) good_file = Returns demo_df"
  by (simp add: read_uploaded_def demo_env_def demo_read_def good_file_def endswith_def
      suffix_to_prefix)

lemma demo_read_bad:
  "read_uploaded (demo_env r) bad_file =
     Raises (Exc (OtherException ''ParserError'') ''Error tokenizing data'')"
  by (simp add: read_uploaded_def demo_env_def demo_read_def bad_file_def endswith_def
      suffix_to_prefix)

lemma demo_read_sample:
  "read_csv (demo_env r) (Path ''sample_data.csv'') =
     Raises (Exc FileNotFoundError
       (''[Errno 2] No such file or directory: '' @ [CHR 0x27] @ ''sample_data.csv'' @ [CHR 0x27]))"
  by (simp add: demo_env_def demo_read_def)

section \<open>The claims\<close>

text \<open>
  C1. Claimed: when the remote model call raises, \<^verbatim>\<open>get_ai_response\<close> catches it and
  still returns the full triple, the diagnostic string in the result slot, and nothing
  propagates to its caller.

  The code catches the exception (of a class derived from \<^verbatim>\<open>Exception\<close>) and returns a
  tuple of two components, \<^verbatim>\<open>(None, message)\<close>, where the Executor's handler returns
  three. The chat handler unpacks three names, so the turn ends in a \<^verbatim>\<open>ValueError\<close>
  after the user's record has been appended.
\<close>

theorem model_failure_returns_pair:
  assumes "generate_content env m (prompt_text (to_string env (head df)) q) = Raises e"
    and "is_Exception (class_of e)"
  shows "get_ai_response env m df q s =
           \<lparr>outcome_of =
              Returns [PyNone, PyStr (''An error occurred with the AI model: '' @ str_of e)],
            session_after = s, rendered = []\<rparr>
         \<and> status (chat_turn env m df q s) =
           Raises (Exc ValueError ''not enough values to unpack (expected 3, got 2)'')"
  using get_ai_response_failure [OF assms, of s] get_ai_response_failure [OF assms, of "asked s q"]
  by (simp add: chat_turn_unpack_failure)

theorem model_failure_returns_pair_witness:
  "get_ai_response (demo_env (Raises (Exc (OtherException ''ResourceExhausted'') ''429 quota exceeded'')))
      demo_model demo_df ''total sales by region'' chatted =
     \<lparr>outcome_of =
        Returns [PyNone, PyStr ''An error occurred with the AI model: 429 quota exceeded''],
      session_after = chatted, rendered = []\<rparr>
   \<and> status (chat_turn (demo_env (Raises (Exc (OtherException ''ResourceExhausted'') ''429 quota exceeded'')))
         demo_model demo_df ''total sales by region'' chatted) =
     Raises (Exc ValueError ''not enough values to unpack (expected 3, got 2)'')"
  using model_failure_returns_pair
    [of "demo_env (Raises (Exc (OtherException ''ResourceExhausted'') ''429 quota exceeded''))"
        demo_model demo_df "''total sales by region''"
        "Exc (OtherException ''ResourceExhausted'') ''429 quota exceeded''" chatted]
  by (simp add: demo_env_def)

text \<open>
  C2. Claimed: the scope in which the code runs is seeded with exactly three identifiers,
  \<^verbatim>\<open>df\<close>, \<^verbatim>\<open>pd\<close> and \<^verbatim>\<open>px\<close>, and no other.

  The dict literal has a fourth entry: \<^verbatim>\<open>st\<close>, the Streamlit module.
\<close>

theorem local_vars_binds_st:
  "local_vars demo_df ''st'' = Some (PyModule ''streamlit'')
   \<and> dom (local_vars demo_df) \<noteq> {''df'', ''pd'', ''px''}"
proof -
  have bound: "local_vars demo_df ''st'' = Some (PyModule ''streamlit'')"
    by (simp add: local_vars_def)
  then have "''st'' \<in> dom (local_vars demo_df)"
    by (rule domI)
  moreover have "''st'' \<notin> {''df'', ''pd'', ''px''}"
    by simp
  ultimately have "dom (local_vars demo_df) \<noteq> {''df'', ''pd'', ''px''}"
    by metis
  with bound show ?thesis ..
qed

text \<open>
  C2, as the code has it: the local scope handed to \<^verbatim>\<open>exec\<close> binds exactly four
  identifiers, the table as \<^verbatim>\<open>df\<close> and the modules \<^verbatim>\<open>pd\<close>, \<^verbatim>\<open>px\<close> and \<^verbatim>\<open>st\<close>
  (the globals are an empty dict), and the Executor consults the interpreter on that
  scope only: two interpreters that agree there give the same result.
\<close>

theorem execute_code_scope:
  "dom (local_vars df) = {''df'', ''pd'', ''px'', ''st''}
   \<and> local_vars df ''df'' = Some (PyDataFrame df)
   \<and> local_vars df ''pd'' = Some (PyModule ''pandas'')
   \<and> local_vars df ''px'' = Some (PyModule ''plotly.express'')
   \<and> local_vars df ''st'' = Some (PyModule ''streamlit'')
   \<and> (exec env code Map.empty (local_vars df) s = exec env' code Map.empty (local_vars df) s
        \<longrightarrow> execute_code env code df s = execute_code env' code df s)"
proof -
  have "dom (local_vars df) = {''df'', ''pd'', ''px'', ''st''}"
    by (auto simp: local_vars_def)
  moreover have "local_vars df ''df'' = Some (PyDataFrame df)"
    "local_vars df ''pd'' = Some (PyModule ''pandas'')"
    "local_vars df ''px'' = Some (PyModule ''plotly.express'')"
    "local_vars df ''st'' = Some (PyModule ''streamlit'')"
    by (simp_all add: local_vars_def)
  moreover have "execute_code env code df s = execute_code env' code df s"
    if "exec env code Map.empty (local_vars df) s = exec env' code Map.empty (local_vars df) s"
    unfolding execute_code_def that ..
  ultimately show ?thesis by blast
qed

theorem execute_code_scope_witness:
  "dom (local_vars demo_df) = {''df'', ''pd'', ''px'', ''st''}
   \<and> execute_code (demo_env Hangs) ''result = len(df)'' demo_df chatted =
       execute_code ((demo_env Hangs)\<lparr>exec := (\<lambda>code globals locals s.
            if globals = Map.empty \<and> locals = local_vars demo_df then demo_exec code globals locals s
            else \<lparr>outcome_of = Hangs, session_after = s, rendered = []\<rparr>)\<rparr>)
         ''result = len(df)'' demo_df chatted
   \<and> execute_code (demo_env Hangs) ''result = len(df)'' demo_df chatted =
       \<lparr>outcome_of = Returns [PyNone, PyInt 2, PyStr ''result = len(df)''],
        session_after = chatted, rendered = []\<rparr>"
proof -
  let ?spy = "(demo_env Hangs)\<lparr>exec := (\<lambda>code globals locals s.
            if globals = Map.empty \<and> locals = local_vars demo_df then demo_exec code globals locals s
            else \<lparr>outcome_of = Hangs, session_after = s, rendered = []\<rparr>)\<rparr>"
  have agree: "exec (demo_env Hangs) ''result = len(df)'' Map.empty (local_vars demo_df) chatted =
      exec ?spy ''result = len(df)'' Map.empty (local_vars demo_df) chatted"
    by (simp add: demo_env_def)
  from execute_code_scope [of demo_df "demo_env Hangs" "''result = len(df)''" chatted ?spy]
    agree demo_len [of Hangs chatted]
  show ?thesis by blast
qed

text \<open>
  C3. Claimed: when the executed code ends without raising and leaves both \<^verbatim>\<open>fig\<close> and
  \<^verbatim>\<open>result\<close> unset, the turn is treated as failed and the result slot of the returned
  triple is overwritten with an error description.

  The turn is treated as failed, but nothing is written into the result slot: the
  Executor returns \<^verbatim>\<open>(None, None, code)\<close>, and the failure branch of the chat handler,
  whose comment expects an error message in \<^verbatim>\<open>result\<close>, formats \<^verbatim>\<open>None\<close> into its
  error box.
\<close>

theorem neither_slot_set_result_stays_None:
  assumes "outcome_of (exec env code Map.empty (local_vars df) s) = Returns lv"
    and "lv ''fig'' = None" and "lv ''result'' = None"
  shows "outcome_of (execute_code env code df s) = Returns [PyNone, PyNone, PyStr code]
         \<and> render_response env PyNone PyNone =
             Returns ([StError ''Sorry, I ran into an issue. \<newline>\<newline>None''],
                      ''I couldn'' @ [CHR 0x27]
                      @ ''t complete that request. Please try rephrasing or asking something else.'')"
  using execute_code_Returns [OF assms(1)] assms(2,3)
  by (simp add: dict_get_def render_response_failure)

theorem neither_slot_set_result_stays_None_witness:
  "outcome_of (execute_code (demo_env Hangs) ''x = 1'' demo_df chatted) =
     Returns [PyNone, PyNone, PyStr ''x = 1'']
   \<and> render_response (demo_env Hangs) PyNone PyNone =
       Returns ([StError ''Sorry, I ran into an issue. \<newline>\<newline>None''],
                ''I couldn'' @ [CHR 0x27]
                @ ''t complete that request. Please try rephrasing or asking something else.'')"
proof -
  have "outcome_of (exec (demo_env Hangs) ''x = 1'' Map.empty (local_vars demo_df) chatted) =
      Returns ((local_vars demo_df)(''x'' \<mapsto> PyInt 1))"
    by (simp add: demo_no_slot)
  moreover have "((local_vars demo_df)(''x'' \<mapsto> PyInt 1)) ''fig'' = None"
    "((local_vars demo_df)(''x'' \<mapsto> PyInt 1)) ''result'' = None"
    by (simp_all add: local_vars_def)
  ultimately show ?thesis
    using neither_slot_set_result_stays_None
      [of "demo_env Hangs" "''x = 1''" demo_df chatted "(local_vars demo_df)(''x'' \<mapsto> PyInt 1)"]
    by blast
qed







text \<open>
  C6. For every prior session state, a successful load replaces the table and leaves the
  transcript empty: after an upload that parses, the transcript is empty at the end of the
  sidebar whatever the sample button does, and the table is the uploaded one when the
  button was not clicked; after a click on the sample button with a readable sample file,
  the table is the sample and the transcript is empty.
\<close>

theorem load_empties_transcript:
  "(uploaded_file w = Some f \<and> read_uploaded env f = Returns t \<longrightarrow>
      session (upload_handler env (uploaded_file w) s) =
        \<lparr>session_messages = [], session_df = Some t\<rparr>
      \<and> session_messages (session (sidebar env w s)) = [])
   \<and> (uploaded_file w = Some f \<and> read_uploaded env f = Returns t
       \<and> load_sample_clicked w = False \<longrightarrow>
      session (sidebar env w s) = \<lparr>session_messages = [], session_df = Some t\<rparr>)
   \<and> (read_csv env (Path ''sample_data.csv'') = Returns t \<longrightarrow>
      session (sample_handler env True s) = \<lparr>session_messages = [], session_df = Some t\<rparr>)
   \<and> (load_sample_clicked w = True \<and> read_csv env (Path ''sample_data.csv'') = Returns t
       \<and> status (upload_handler env (uploaded_file w) s) = Returns () \<longrightarrow>
      session (sidebar env w s) = \<lparr>session_messages = [], session_df = Some t\<rparr>)"
proof (intro conjI impI)
  assume a: "uploaded_file w = Some f \<and> read_uploaded env f = Returns t"
  then have up: "upload_handler env (uploaded_file w) s =
      \<lparr>status = Returns (), session = \<lparr>session_messages = [], session_df = Some t\<rparr>,
       page = [StSuccess ''File uploaded successfully!'']\<rparr>"
    by (simp add: upload_ok)
  then show "session (upload_handler env (uploaded_file w) s) =
      \<lparr>session_messages = [], session_df = Some t\<rparr>"
    by simp
  from up have "session (sidebar env w s) =
      session (sample_handler env (load_sample_clicked w)
        \<lparr>session_messages = [], session_df = Some t\<rparr>)"
    using sidebar_steps [of env w s] by simp
  then show "session_messages (session (sidebar env w s)) = []"
    by (simp add: sample_handler_def render_def split: outcome.splits)
next
  assume a: "uploaded_file w = Some f \<and> read_uploaded env f = Returns t
      \<and> load_sample_clicked w = False"
  then have "upload_handler env (uploaded_file w) s =
      \<lparr>status = Returns (), session = \<lparr>session_messages = [], session_df = Some t\<rparr>,
       page = [StSuccess ''File uploaded successfully!'']\<rparr>"
    by (simp add: upload_ok)
  with a show "session (sidebar env w s) = \<lparr>session_messages = [], session_df = Some t\<rparr>"
    using sidebar_steps [of env w s] by (simp add: sample_not_clicked render_def)
next
  assume "read_csv env (Path ''sample_data.csv'') = Returns t"
  then show "session (sample_handler env True s) = \<lparr>session_messages = [], session_df = Some t\<rparr>"
    by (simp add: sample_ok)
next
  assume a: "load_sample_clicked w = True \<and> read_csv env (Path ''sample_data.csv'') = Returns t
      \<and> status (upload_handler env (uploaded_file w) s) = Returns ()"
  then show "session (sidebar env w s) = \<lparr>session_messages = [], session_df = Some t\<rparr>"
    using sidebar_steps [of env w s] by (simp add: sample_ok)
qed

theorem load_empties_transcript_witness:
  "read_uploaded (demo_env Hangs) good_file = Returns demo_df
   \<and> session (upload_handler (demo_env Hangs) (Some good_file) chatted) =
       \<lparr>session_messages = [], session_df = Some demo_df\<rparr>
   \<and> session (sidebar (demo_env Hangs)
        \<lparr>uploaded_file = Some good_file, load_sample_clicked = False, chat_input = None\<rparr> chatted) =
       \<lparr>session_messages = [], session_df = Some demo_df\<rparr>
   \<and> session (sample_handler ((demo_env Hangs)\<lparr>read_csv := (\<lambda>src. Returns demo_df)\<rparr>) True chatted) =
       \<lparr>session_messages = [], session_df = Some demo_df\<rparr>
   \<and> session (sidebar ((demo_env Hangs)\<lparr>read_csv := (\<lambda>src. Returns demo_df)\<rparr>)
        \<lparr>uploaded_file = None, load_sample_clicked = True, chat_input = None\<rparr> chatted) =
       \<lparr>session_messages = [], session_df = Some demo_df\<rparr>"
  using load_empties_transcript
      [of "\<lparr>uploaded_file = Some good_file, load_sample_clicked = False, chat_input = None\<rparr>"
          good_file "demo_env Hangs" demo_df chatted]
    load_empties_transcript
      [of "\<lparr>uploaded_file = None, load_sample_clicked = True, chat_input = None\<rparr>"
          good_file "(demo_env Hangs)\<lparr>read_csv := (\<lambda>src. Returns demo_df)\<rparr>" demo_df chatted]
    demo_read_good [of Hangs]
  by (simp add: no_upload render_def)

text \<open>
  C7. Claimed: for every load attempt, uploaded file or sample file, whose input is
  unreadable, the failure is caught, an error is reported inline, and the table is cleared.

  The upload branch does so (see C10). The sample branch calls \<^verbatim>\<open>pd.read_csv\<close> outside
  any \<^verbatim>\<open>try\<close>: the exception ends the run, the script reports nothing itself and the
  table is left as it was.
\<close>

theorem sample_load_failure_propagates:
  assumes "read_csv env (Path ''sample_data.csv'') = Raises e"
  shows "sample_handler env True s = \<lparr>status = Raises e, session = s, page = []\<rparr>
         \<and> (uploaded_file w = None \<and> load_sample_clicked w = True \<longrightarrow>
              sidebar env w s =
                \<lparr>status = Raises e, session = s,
                 page = [StHeader ''1. Upload Your Data'',
                         StFileUploader ''Choose a CSV or Excel file'',
                         StButton ''Load Sample Data'']\<rparr>)"
  using assms
  by (simp add: sample_failed sidebar_def and_then_def render_def no_upload Let_def)

theorem sample_load_failure_propagates_witness:
  "sample_handler (demo_env Hangs) True chatted =
     \<lparr>status = Raises (Exc FileNotFoundError
       (''[Errno 2] No such file or directory: '' @ [CHR 0x27] @ ''sample_data.csv'' @ [CHR 0x27])),
      session = chatted, page = []\<rparr>
   \<and> sidebar (demo_env Hangs)
        \<lparr>uploaded_file = None, load_sample_clicked = True, chat_input = None\<rparr> chatted =
     \<lparr>status = Raises (Exc FileNotFoundError
       (''[Errno 2] No such file or directory: '' @ [CHR 0x27] @ ''sample_data.csv'' @ [CHR 0x27])),
      session = chatted,
      page = [StHeader ''1. Upload Your Data'', StFileUploader ''Choose a CSV or Excel file'',
              StButton ''Load Sample Data'']\<rparr>
   \<and> session_df chatted = Some demo_df"
  using sample_load_failure_propagates [OF demo_read_sample, of Hangs chatted
      "\<lparr>uploaded_file = None, load_sample_clicked = True, chat_input = None\<rparr>"]
  by (simp add: chatted_def)

text \<open>
  C8. If the API credential is absent (no secrets file, or no \<^verbatim>\<open>google_api_key\<close> in
  it), the run stops after the setup error and the hint: the session state is untouched,
  nothing else is on the page, and the result depends neither on the widgets nor on the
  readers, the model or the interpreter.
\<close>

theorem missing_credential_halts:
  assumes "secrets = None \<or> (\<exists>m. secrets = Some m \<and> m ''google_api_key'' = None)"
  shows "script env secrets w st =
           \<lparr>status = Raises st_stop, session = st,
            page = [StSetPageConfig,
                    StError ([CHR 0xE2, CHR 0x9A, CHR 0xA0, CHR 0xEF, CHR 0xB8, CHR 0x8F]
                             @ '' **Warning:** Google API key not found.''),
                    StInfo ''Please add your Google API key to your Streamlit secrets. Name it `google_api_key`.'']\<rparr>"
  using assms
  by (auto simp: script_def api_configuration_def secrets_getitem_def)

theorem missing_credential_halts_witness:
  "script (demo_env (Returns ''fig = px.bar(df)'')) None
      \<lparr>uploaded_file = Some good_file, load_sample_clicked = True, chat_input = Some ''plot sales''\<rparr>
      (Some chatted) =
     \<lparr>status = Raises st_stop, session = Some chatted,
      page = [StSetPageConfig,
              StError ([CHR 0xE2, CHR 0x9A, CHR 0xA0, CHR 0xEF, CHR 0xB8, CHR 0x8F]
                       @ '' **Warning:** Google API key not found.''),
              StInfo ''Please add your Google API key to your Streamlit secrets. Name it `google_api_key`.'']\<rparr>
   \<and> script (demo_env (Returns ''fig = px.bar(df)'')) (Some [''other_key'' \<mapsto> ''v''])
      \<lparr>uploaded_file = Some good_file, load_sample_clicked = True, chat_input = Some ''plot sales''\<rparr>
      None =
     \<lparr>status = Raises st_stop, session = None,
      page = [StSetPageConfig,
              StError ([CHR 0xE2, CHR 0x9A, CHR 0xA0, CHR 0xEF, CHR 0xB8, CHR 0x8F]
                       @ '' **Warning:** Google API key not found.''),
              StInfo ''Please add your Google API key to your Streamlit secrets. Name it `google_api_key`.'']\<rparr>"
proof -
  have "[''other_key'' \<mapsto> ''v''] ''google_api_key'' = None"
    by simp
  then have "\<exists>m. Some [''other_key'' \<mapsto> ''v''] = Some m \<and> m ''google_api_key'' = None"
    by blast
  then show ?thesis
    using missing_credential_halts [of None] missing_credential_halts [of "Some [''other_key'' \<mapsto> ''v'']"]
    by blast
qed

text \<open>
  C9. Claimed: the string executed is the reply with fence markers removed, and only
  fence markers removed.

  The cleanup starts with \<^verbatim>\<open>strip()\<close>: a reply without any backquote loses its leading
  and trailing whitespace.
\<close>

theorem cleanup_strips_whitespace:
  "CHR 0x60 \<notin> set ''  result = len(df)\<newline>''
   \<and> code_to_execute ''  result = len(df)\<newline>'' = ''result = len(df)''
   \<and> code_to_execute ''  result = len(df)\<newline>'' \<noteq> ''  result = len(df)\<newline>''"
proof -
  have "code_to_execute ''  result = len(df)\<newline>'' = ''result = len(df)''"
    by code_simp
  then show ?thesis by simp
qed

text \<open>
  C9, as the code has it: when the model answers, the string handed to the Executor is the
  reply with leading and trailing whitespace stripped, then every \<^verbatim>\<open>```python\<close> removed,
  then every \<^verbatim>\<open>```\<close> removed; no triple backquote is left in it.
\<close>

theorem reply_cleanup:
  assumes "generate_content env m (prompt_text (to_string env (head df)) q) = Returns text"
  shows "get_ai_response env m df q s = execute_code env (code_to_execute text) df s
         \<and> code_to_execute text = replace ''```'' [] (replace ''```python'' [] (strip text))
         \<and> \<not> sublist ''```'' (code_to_execute text)"
  using get_ai_response_text [OF assms] replace_fence_no_fence
  by (simp add: code_to_execute_def)

theorem reply_cleanup_witness:
  "get_ai_response (demo_env (Returns ''```python\<newline>result = len(df)\<newline>```''))
     demo_model demo_df ''how many rows?'' chatted =
     execute_code (demo_env (Returns ''```python\<newline>result = len(df)\<newline>```''))
       ''\<newline>result = len(df)\<newline>'' demo_df chatted
   \<and> strip ''```python\<newline>result = len(df)\<newline>```'' = ''```python\<newline>result = len(df)\<newline>```''
   \<and> replace ''```python'' [] ''```python\<newline>result = len(df)\<newline>```'' =
       ''\<newline>result = len(df)\<newline>```''
   \<and> replace ''```'' [] ''\<newline>result = len(df)\<newline>```'' = ''\<newline>result = len(df)\<newline>''
   \<and> \<not> sublist ''```'' ''\<newline>result = len(df)\<newline>''"
proof -
  let ?reply = "''```python\<newline>result = len(df)\<newline>```''"
  have reply: "generate_content (demo_env (Returns ?reply)) demo_model
      (prompt_text (to_string (demo_env (Returns ?reply)) (head demo_df)) ''how many rows?'') =
      Returns ?reply"
    by (simp add: demo_env_def)
  have s: "strip ?reply = ?reply"
    by code_simp
  have r1: "replace ''```python'' [] ?reply = ''\<newline>result = len(df)\<newline>```''"
    by code_simp
  have r2: "replace ''```'' [] ''\<newline>result = len(df)\<newline>```'' = ''\<newline>result = len(df)\<newline>''"
    by code_simp
  from reply_cleanup [OF reply, of chatted] s r1 r2 show ?thesis
    by (simp add: demo_fenced_reply)
qed

text \<open>
  C10. When an uploaded file fails to parse (the reader raises an \<^verbatim>\<open>Exception\<close>), the
  upload branch reports the error, sets the table to \<^verbatim>\<open>None\<close> and leaves the transcript
  as it was; so does the whole sidebar when the sample button was not clicked.
\<close>

theorem failed_upload_keeps_transcript:
  assumes "read_uploaded env f = Raises e" and "is_Exception (class_of e)"
  shows "upload_handler env (Some f) s =
           \<lparr>status = Returns (), session = s\<lparr>session_df := None\<rparr>,
            page = [StError (''Error reading file: '' @ str_of e)]\<rparr>
         \<and> session_messages (session (upload_handler env (Some f) s)) = session_messages s
         \<and> session_df (session (upload_handler env (Some f) s)) = None
         \<and> (uploaded_file w = Some f \<and> load_sample_clicked w = False \<longrightarrow>
              session (sidebar env w s) = s\<lparr>session_df := None\<rparr>)"
proof -
  have up: "upload_handler env (Some f) s =
           \<lparr>status = Returns (), session = s\<lparr>session_df := None\<rparr>,
            page = [StError (''Error reading file: '' @ str_of e)]\<rparr>"
    using assms by (rule upload_failed)
  moreover have "session (sidebar env w s) = s\<lparr>session_df := None\<rparr>"
    if "uploaded_file w = Some f \<and> load_sample_clicked w = False"
    using sidebar_steps [of env w s] up that by (simp add: sample_not_clicked render_def)
  ultimately show ?thesis by simp
qed

theorem failed_upload_keeps_transcript_witness:
  "read_uploaded (demo_env Hangs) bad_file =
     Raises (Exc (OtherException ''ParserError'') ''Error tokenizing data'')
   \<and> upload_handler (demo_env Hangs) (Some bad_file) chatted =
       \<lparr>status = Returns (), session = chatted\<lparr>session_df := None\<rparr>,
        page = [StError ''Error reading file: Error tokenizing data'']\<rparr>
   \<and> session_messages (session (upload_handler (demo_env Hangs) (Some bad_file) chatted)) =
       session_messages chatted
   \<and> session_messages chatted \<noteq> []
   \<and> session (sidebar (demo_env Hangs)
        \<lparr>uploaded_file = Some bad_file, load_sample_clicked = False, chat_input = None\<rparr> chatted) =
       chatted\<lparr>session_df := None\<rparr>"
  using failed_upload_keeps_transcript [OF demo_read_bad, of Hangs chatted
      "\<lparr>uploaded_file = Some bad_file, load_sample_clicked = False, chat_input = None\<rparr>"]
    demo_read_bad [of Hangs]
  by (simp add: chatted_def)

end
